theory Spec2Isabelle
  imports Complex_Main "HOL-Library.Log_Nat"
begin

section \<open>JavaScript numbers\<close>

text \<open>
  Every numeric field of the application is a JavaScript \<^verbatim>\<open>number\<close>. The model
  uses exact rationals for the finite ones (the decimal constants of the source, such as
  \<^verbatim>\<open>1.375\<close> or \<^verbatim>\<open>0.85\<close>, are the fractions they denote), and a separate type
  \<open>jsnum\<close> where the source divides, because a division by zero does not fail in
  JavaScript: it yields \<^verbatim>\<open>Infinity\<close>, \<^verbatim>\<open>-Infinity\<close> or \<^verbatim>\<open>NaN\<close>.
  The negative zero is not represented.
\<close>

definition Math_round :: "rat \<Rightarrow> rat" where
  \<comment> \<open>\<^verbatim>\<open>Math.round\<close>: the nearest integer, a half rounding towards plus infinity.\<close>
  "Math_round x = of_int \<lfloor>x + 1 / 2\<rfloor>"

definition or0 :: "rat option \<Rightarrow> rat" where
  \<comment> \<open>\<^verbatim>\<open>v || 0\<close> for a possibly absent number: \<^verbatim>\<open>undefined\<close> and \<^verbatim>\<open>0\<close> both give 0.\<close>
  "or0 v = (case v of None \<Rightarrow> 0 | Some x \<Rightarrow> x)"

definition opt_field :: "('r \<Rightarrow> rat option) \<Rightarrow> 'r option \<Rightarrow> rat" where
  \<comment> \<open>\<^verbatim>\<open>obj?.field || 0\<close> for an optional nested object.\<close>
  "opt_field f obj = (case obj of None \<Rightarrow> 0 | Some r \<Rightarrow> or0 (f r))"

text \<open>
  The sum of two doubles is the exact sum rounded to the nearest double, a tie going to
  the even significand. \<open>to_double\<close> is that rounding for the normal range (53
  significant bits; overflow and subnormal numbers are not represented). It is written
  out in the nutrition sum, where a property depends on it; the other operations are
  exact.
\<close>

definition pow2 :: "int \<Rightarrow> rat" where
  "pow2 k = (if 0 \<le> k then 2 ^ nat k else 1 / 2 ^ nat (- k))"

definition round_half_even :: "rat \<Rightarrow> int" where
  "round_half_even y =
     (let f = \<lfloor>y\<rfloor>; d = y - of_int f
      in if d < 1 / 2 then f else if 1 / 2 < d then f + 1 else if even f then f else f + 1)"

definition binary_exponent :: "rat \<Rightarrow> int" where
  \<comment> \<open>For \<open>x \<noteq> 0\<close>, the \<open>e\<close> with \<open>2^e \<le> |x| < 2^(e+1)\<close>, from the bit lengths of
      numerator and denominator.\<close>
  "binary_exponent x =
     (let (p, q) = quotient_of x; k = bitlen \<bar>p\<bar> - bitlen q
      in if pow2 k \<le> \<bar>x\<bar> then k else k - 1)"

definition to_double :: "rat \<Rightarrow> rat" where
  "to_double x =
     (if x = 0 then 0
      else let u = pow2 (binary_exponent x - 52)
           in of_int (round_half_even (x / u)) * u)"

definition js_plus :: "rat \<Rightarrow> rat \<Rightarrow> rat" where
  \<comment> \<open>\<^verbatim>\<open>a + b\<close> on doubles.\<close>
  "js_plus a b = to_double (a + b)"

datatype jsnum = Num rat | PosInfinity | NegInfinity | NaN

definition js_div :: "rat \<Rightarrow> rat \<Rightarrow> jsnum" where
  \<comment> \<open>\<^verbatim>\<open>a / b\<close> on finite numbers.\<close>
  "js_div a b =
     (if b \<noteq> 0 then Num (a / b)
      else if 0 < a then PosInfinity
      else if a < 0 then NegInfinity
      else NaN)"

fun js_scale :: "jsnum \<Rightarrow> rat \<Rightarrow> jsnum" where
  \<comment> \<open>\<^verbatim>\<open>x * c\<close> for a positive finite constant \<open>c\<close>.\<close>
  "js_scale (Num x) c = Num (x * c)"
| "js_scale PosInfinity c = PosInfinity"
| "js_scale NegInfinity c = NegInfinity"
| "js_scale NaN c = NaN"

fun js_add :: "jsnum \<Rightarrow> jsnum \<Rightarrow> jsnum" where
  "js_add (Num x) (Num y) = Num (x + y)"
| "js_add NaN _ = NaN"
| "js_add _ NaN = NaN"
| "js_add PosInfinity NegInfinity = NaN"
| "js_add NegInfinity PosInfinity = NaN"
| "js_add PosInfinity _ = PosInfinity"
| "js_add _ PosInfinity = PosInfinity"
| "js_add NegInfinity _ = NegInfinity"
| "js_add _ NegInfinity = NegInfinity"

fun js_round :: "jsnum \<Rightarrow> jsnum" where
  \<comment> \<open>\<^verbatim>\<open>Math.round\<close> leaves the non-finite values as they are.\<close>
  "js_round (Num x) = Num (Math_round x)"
| "js_round v = v"

fun js_less :: "jsnum \<Rightarrow> rat \<Rightarrow> bool" where
  \<comment> \<open>\<^verbatim>\<open>x < c\<close>; every comparison with \<^verbatim>\<open>NaN\<close> is false.\<close>
  "js_less (Num x) c = (x < c)"
| "js_less NegInfinity c = True"
| "js_less _ c = False"

fun js_greater :: "jsnum \<Rightarrow> rat \<Rightarrow> bool" where
  "js_greater (Num x) c = (c < x)"
| "js_greater PosInfinity c = True"
| "js_greater _ c = False"

fun js_ge :: "jsnum \<Rightarrow> rat \<Rightarrow> bool" where
  "js_ge (Num x) c = (c \<le> x)"
| "js_ge PosInfinity c = True"
| "js_ge _ c = False"

fun js_le :: "jsnum \<Rightarrow> rat \<Rightarrow> bool" where
  "js_le (Num x) c = (x \<le> c)"
| "js_le NegInfinity c = True"
| "js_le _ c = False"


section \<open>Nutrition data (nutritionTrackingService.ts)\<close>

text \<open>
  Interface \<^verbatim>\<open>NutritionData\<close>: five required numbers, three optional ones and two
  optional nested objects whose keys are all optional. An absent key is \<open>None\<close>.
\<close>

record Vitamins =
  vitaminA :: "rat option"
  vitaminC :: "rat option"
  vitaminD :: "rat option"
  vitaminE :: "rat option"
  vitaminK :: "rat option"
  thiamin :: "rat option"
  riboflavin :: "rat option"
  niacin :: "rat option"
  vitaminB6 :: "rat option"
  folate :: "rat option"
  vitaminB12 :: "rat option"

record Minerals =
  calcium :: "rat option"
  iron :: "rat option"
  magnesium :: "rat option"
  phosphorus :: "rat option"
  potassium :: "rat option"
  zinc :: "rat option"
  copper :: "rat option"
  manganese :: "rat option"
  selenium :: "rat option"

record NutritionData =
  calories :: rat
  protein :: rat
  carbs :: rat
  fat :: rat
  fiber :: rat
  sugar :: "rat option"
  sodium :: "rat option"
  cholesterol :: "rat option"
  vitamins :: "Vitamins option"
  minerals :: "Minerals option"

definition truthy0 :: "rat \<Rightarrow> rat" where
  \<comment> \<open>\<^verbatim>\<open>x || 0\<close> for a number that is present: the number itself.\<close>
  "truthy0 x = (if x \<noteq> 0 then x else 0)"

definition addNutritionData :: "NutritionData \<Rightarrow> NutritionData \<Rightarrow> NutritionData" where
  "addNutritionData data1 data2 =
     \<lparr> calories = js_plus (calories data1) (calories data2),
       protein = js_plus (protein data1) (protein data2),
       carbs = js_plus (carbs data1) (carbs data2),
       fat = js_plus (fat data1) (fat data2),
       fiber = js_plus (truthy0 (fiber data1)) (truthy0 (fiber data2)),
       sugar = Some (js_plus (or0 (sugar data1)) (or0 (sugar data2))),
       sodium = Some (js_plus (or0 (sodium data1)) (or0 (sodium data2))),
       cholesterol = Some (js_plus (or0 (cholesterol data1)) (or0 (cholesterol data2))),
       vitamins = Some
         \<lparr> vitaminA = Some (js_plus (opt_field vitaminA (vitamins data1)) (opt_field vitaminA (vitamins data2))),
           vitaminC = Some (js_plus (opt_field vitaminC (vitamins data1)) (opt_field vitaminC (vitamins data2))),
           vitaminD = Some (js_plus (opt_field vitaminD (vitamins data1)) (opt_field vitaminD (vitamins data2))),
           vitaminE = Some (js_plus (opt_field vitaminE (vitamins data1)) (opt_field vitaminE (vitamins data2))),
           vitaminK = Some (js_plus (opt_field vitaminK (vitamins data1)) (opt_field vitaminK (vitamins data2))),
           thiamin = Some (js_plus (opt_field thiamin (vitamins data1)) (opt_field thiamin (vitamins data2))),
           riboflavin = Some (js_plus (opt_field riboflavin (vitamins data1)) (opt_field riboflavin (vitamins data2))),
           niacin = Some (js_plus (opt_field niacin (vitamins data1)) (opt_field niacin (vitamins data2))),
           vitaminB6 = Some (js_plus (opt_field vitaminB6 (vitamins data1)) (opt_field vitaminB6 (vitamins data2))),
           folate = Some (js_plus (opt_field folate (vitamins data1)) (opt_field folate (vitamins data2))),
           vitaminB12 = Some (js_plus (opt_field vitaminB12 (vitamins data1)) (opt_field vitaminB12 (vitamins data2))) \<rparr>,
       minerals = Some
         \<lparr> calcium = Some (js_plus (opt_field calcium (minerals data1)) (opt_field calcium (minerals data2))),
           iron = Some (js_plus (opt_field iron (minerals data1)) (opt_field iron (minerals data2))),
           magnesium = Some (js_plus (opt_field magnesium (minerals data1)) (opt_field magnesium (minerals data2))),
           phosphorus = Some (js_plus (opt_field phosphorus (minerals data1)) (opt_field phosphorus (minerals data2))),
           potassium = Some (js_plus (opt_field potassium (minerals data1)) (opt_field potassium (minerals data2))),
           zinc = Some (js_plus (opt_field zinc (minerals data1)) (opt_field zinc (minerals data2))),
           copper = Some (js_plus (opt_field copper (minerals data1)) (opt_field copper (minerals data2))),
           manganese = Some (js_plus (opt_field manganese (minerals data1)) (opt_field manganese (minerals data2))),
           selenium = Some (js_plus (opt_field selenium (minerals data1)) (opt_field selenium (minerals data2))) \<rparr> \<rparr>"

definition createEmptyNutritionData :: NutritionData where
  "createEmptyNutritionData =
     \<lparr> calories = 0, protein = 0, carbs = 0, fat = 0, fiber = 0,
       sugar = Some 0, sodium = Some 0, cholesterol = Some 0,
       vitamins = Some
         \<lparr> vitaminA = Some 0, vitaminC = Some 0, vitaminD = Some 0, vitaminE = Some 0,
           vitaminK = Some 0, thiamin = Some 0, riboflavin = Some 0, niacin = Some 0,
           vitaminB6 = Some 0, folate = Some 0, vitaminB12 = Some 0 \<rparr>,
       minerals = Some
         \<lparr> calcium = Some 0, iron = Some 0, magnesium = Some 0, phosphorus = Some 0,
           potassium = Some 0, zinc = Some 0, copper = Some 0, manganese = Some 0,
           selenium = Some 0 \<rparr> \<rparr>"

text \<open>
  The numbers of a nutrition value, an absent one read as 0, and the values all of whose
  numbers are integers below \<open>2^51\<close> in magnitude: sums of three of them are exact
  in doubles. The generator rounds every number it stores to an integer.
\<close>

definition small_integer :: "rat \<Rightarrow> bool" where
  "small_integer v = (of_int \<lfloor>v\<rfloor> = v \<and> \<bar>v\<bar> < 2 ^ 51)"

definition field_values :: "NutritionData \<Rightarrow> rat list" where
  "field_values d =
     [calories d, protein d, carbs d, fat d, fiber d,
      or0 (sugar d), or0 (sodium d), or0 (cholesterol d),
      opt_field vitaminA (vitamins d), opt_field vitaminC (vitamins d),
      opt_field vitaminD (vitamins d), opt_field vitaminE (vitamins d),
      opt_field vitaminK (vitamins d), opt_field thiamin (vitamins d),
      opt_field riboflavin (vitamins d), opt_field niacin (vitamins d),
      opt_field vitaminB6 (vitamins d), opt_field folate (vitamins d),
      opt_field vitaminB12 (vitamins d),
      opt_field calcium (minerals d), opt_field iron (minerals d),
      opt_field magnesium (minerals d), opt_field phosphorus (minerals d),
      opt_field potassium (minerals d), opt_field zinc (minerals d),
      opt_field copper (minerals d), opt_field manganese (minerals d),
      opt_field selenium (minerals d)]"

definition small_integers :: "NutritionData \<Rightarrow> bool" where
  "small_integers d = list_all small_integer (field_values d)"


section \<open>Profiles, meals and plans (types)\<close>

text \<open>
  The string-literal unions of the type declarations are datatypes. \<open>unknown_level\<close>
  stands for an activity level that is none of the five literals and names no member of
  the lookup object (a row of the database is cast without a check); it is not a valid
  value of the declared type.
\<close>

datatype Gender = male | female | other

datatype ActivityLevel = sedentary | light | moderate | active | very_active | unknown_level

datatype Goal = weight_loss | muscle_gain | maintenance | general_health

datatype DietType = omnivore | vegetarian | vegan | pescatarian | keto | paleo

record PersonalDetails =
  age :: rat
  gender :: Gender
  weight :: rat
  height :: rat
  activityLevel :: ActivityLevel

text \<open>
  \<^verbatim>\<open>healthGoals\<close> is declared with the key \<^verbatim>\<open>primary\<close>. The nutrition tracker
  reads the key \<^verbatim>\<open>primaryGoal\<close>, which the declaration does not have and which no
  constructor of a profile in the repository sets; objects being open, the model carries
  it as an optional field, \<open>None\<close> when the key is absent.
\<close>

record HealthGoals =
  primary :: Goal
  primaryGoal :: "Goal option"

record DietaryRestrictions =
  dietType :: DietType

record UserProfile =
  name :: string
  email :: string
  personalDetails :: PersonalDetails
  healthGoals :: HealthGoals
  dietaryRestrictions :: DietaryRestrictions
  planDuration :: rat

text \<open>
  A meal keeps the fields the operations read; its identifier and the texts copied from
  the template (description, ingredients, instructions) are left out. The nested object
  \<^verbatim>\<open>meals\<close> of a day is flattened into the four slots, and the flag
  \<^verbatim>\<open>completed\<close> of a day is \<open>day_completed\<close>. A date is a day number.
\<close>

record Meal =
  meal_name :: string
  nutrition :: NutritionData
  prepTime :: rat
  cookTime :: rat
  servings :: rat
  completed :: bool

record DayMeal =
  day :: int
  date :: int
  breakfast :: Meal
  lunch :: Meal
  dinner :: Meal
  snacks :: "Meal list"
  totalCalories :: rat
  day_completed :: bool

record Macros =
  macros_protein :: rat
  macros_carbs :: rat
  macros_fat :: rat

record Progress =
  completedDays :: rat
  totalDays :: rat
  adherenceRate :: jsnum

record DietPlan =
  duration :: rat
  plan_dailyCalories :: rat
  macros :: Macros
  meals :: "DayMeal list"
  isActive :: bool
  progress :: Progress

record NutritionTargets =
  dailyCalories :: rat
  target_protein :: rat
  target_carbs :: rat
  target_fat :: rat

record Percentage =
  pct_calories :: jsnum
  pct_protein :: jsnum
  pct_carbs :: jsnum
  pct_fat :: jsnum
  pct_fiber :: jsnum

datatype Status = deficit | optimal | excess

record NutritionProgress =
  current :: NutritionData
  target :: NutritionData
  percentage :: Percentage
  status :: Status


section \<open>NutritionTrackingService\<close>

definition calculateMealNutrition :: "Meal \<Rightarrow> NutritionData" where
  "calculateMealNutrition meal =
     (let n = nutrition meal in
      \<lparr> calories = truthy0 (calories n),
        protein = truthy0 (protein n),
        carbs = truthy0 (carbs n),
        fat = truthy0 (fat n),
        fiber = truthy0 (fiber n),
        sugar = Some (or0 (sugar n)),
        sodium = Some (or0 (sodium n)),
        cholesterol = Some (or0 (cholesterol n)),
        vitamins = Some
          \<lparr> vitaminA = Some (opt_field vitaminA (vitamins n)),
            vitaminC = Some (opt_field vitaminC (vitamins n)),
            vitaminD = Some (opt_field vitaminD (vitamins n)),
            vitaminE = Some (opt_field vitaminE (vitamins n)),
            vitaminK = Some (opt_field vitaminK (vitamins n)),
            thiamin = Some (opt_field thiamin (vitamins n)),
            riboflavin = Some (opt_field riboflavin (vitamins n)),
            niacin = Some (opt_field niacin (vitamins n)),
            vitaminB6 = Some (opt_field vitaminB6 (vitamins n)),
            folate = Some (opt_field folate (vitamins n)),
            vitaminB12 = Some (opt_field vitaminB12 (vitamins n)) \<rparr>,
        minerals = Some
          \<lparr> calcium = Some (opt_field calcium (minerals n)),
            iron = Some (opt_field iron (minerals n)),
            magnesium = Some (opt_field magnesium (minerals n)),
            phosphorus = Some (opt_field phosphorus (minerals n)),
            potassium = Some (opt_field potassium (minerals n)),
            zinc = Some (opt_field zinc (minerals n)),
            copper = Some (opt_field copper (minerals n)),
            manganese = Some (opt_field manganese (minerals n)),
            selenium = Some (opt_field selenium (minerals n)) \<rparr> \<rparr>)"

definition calculateDayNutrition :: "DayMeal \<Rightarrow> NutritionData" where
  "calculateDayNutrition dayMeal =
     (let breakfastN = calculateMealNutrition (breakfast dayMeal);
          lunchN = calculateMealNutrition (lunch dayMeal);
          dinnerN = calculateMealNutrition (dinner dayMeal);
          snacksNutrition =
            foldl (\<lambda>acc snack. addNutritionData acc (calculateMealNutrition snack))
              createEmptyNutritionData (snacks dayMeal);
          mainMealsNutrition = addNutritionData (addNutritionData breakfastN lunchN) dinnerN
      in addNutritionData mainMealsNutrition snacksNutrition)"

definition recalculateDayMealTotals :: "DayMeal \<Rightarrow> DayMeal" where
  "recalculateDayMealTotals dayMeal =
     dayMeal\<lparr>totalCalories := Math_round (calories (calculateDayNutrition dayMeal))\<rparr>"

definition bmr_of :: "PersonalDetails \<Rightarrow> rat" where
  \<comment> \<open>The Mifflin-St Jeor step, written the same way in both services.\<close>
  "bmr_of d =
     (if gender d = male
      then 10 * weight d + (625 / 100) * height d - 5 * age d + 5
      else 10 * weight d + (625 / 100) * height d - 5 * age d - 161)"





definition percent_of :: "rat \<Rightarrow> rat \<Rightarrow> jsnum" where
  \<comment> \<open>\<^verbatim>\<open>Math.round((current / target) * 100)\<close>\<close>
  "percent_of c t = js_round (js_scale (js_div c t) 100)"

definition calculateNutritionProgress :: "NutritionData \<Rightarrow> NutritionData \<Rightarrow> NutritionProgress" where
  "calculateNutritionProgress cur tgt =
     (let pct = \<lparr> pct_calories = percent_of (calories cur) (calories tgt),
                   pct_protein = percent_of (protein cur) (protein tgt),
                   pct_carbs = percent_of (carbs cur) (carbs tgt),
                   pct_fat = percent_of (fat cur) (fat tgt),
                   pct_fiber = percent_of (fiber cur) (fiber tgt) \<rparr>;
          st = (if js_less (pct_calories pct) 80 \<or> js_less (pct_protein pct) 80 \<or>
                   js_less (pct_carbs pct) 80 \<or> js_less (pct_fat pct) 80
                then deficit
                else if js_greater (pct_calories pct) 120 \<or> js_greater (pct_protein pct) 120 \<or>
                        js_greater (pct_carbs pct) 120 \<or> js_greater (pct_fat pct) 120
                then excess
                else optimal)
      in \<lparr> current = cur, target = tgt, percentage = pct, status = st \<rparr>)"

fun deviation_score :: "jsnum \<Rightarrow> jsnum" where
  \<comment> \<open>\<^verbatim>\<open>Math.max(0, 100 - Math.abs(p - 100))\<close>; with an infinite \<open>p\<close> the inner
      value is \<^verbatim>\<open>-Infinity\<close>, and \<^verbatim>\<open>Math.max\<close> of anything with \<^verbatim>\<open>NaN\<close> is \<^verbatim>\<open>NaN\<close>.\<close>
  "deviation_score (Num x) = Num (max 0 (100 - \<bar>x - 100\<bar>))"
| "deviation_score NaN = NaN"
| "deviation_score _ = Num 0"

definition target_score :: "jsnum \<Rightarrow> jsnum" where
  \<comment> \<open>The expression written out for calories, protein, carbs and fat.\<close>
  "target_score p =
     (if js_ge p 90 \<and> js_le p 110 then Num 100
      else if js_ge p 80 \<and> js_le p 120 then Num 80
      else deviation_score p)"

definition fiberScore :: "jsnum \<Rightarrow> jsnum" where
  "fiberScore p = (if js_ge p 100 then Num 100 else js_scale p (125 / 100))"

definition calculateNutritionScore :: "NutritionProgress \<Rightarrow> jsnum" where
  "calculateNutritionScore prog =
     (let pct = percentage prog;
          calorieScore = target_score (pct_calories pct);
          proteinScore = target_score (pct_protein pct);
          carbsScore = target_score (pct_carbs pct);
          fatScore = target_score (pct_fat pct);
          fiberS = fiberScore (pct_fiber pct);
          score = js_add (js_add (js_add (js_add
                    (js_scale calorieScore (4 / 10))
                    (js_scale proteinScore (2 / 10)))
                    (js_scale carbsScore (2 / 10)))
                    (js_scale fatScore (1 / 10)))
                    (js_scale fiberS (1 / 10))
      in js_round score)"


section \<open>AIService: nutrition targets\<close>

definition activityMultipliers :: "ActivityLevel \<Rightarrow> rat option" where
  \<comment> \<open>The lookup object of the plan generator; \<open>None\<close> is a missing key.\<close>
  "activityMultipliers lvl =
     (case lvl of
        sedentary \<Rightarrow> Some (12 / 10)
      | light \<Rightarrow> Some (1375 / 1000)
      | moderate \<Rightarrow> Some (155 / 100)
      | active \<Rightarrow> Some (1725 / 1000)
      | very_active \<Rightarrow> Some (19 / 10)
      | unknown_level \<Rightarrow> None)"

definition activityMultiplier :: "ActivityLevel \<Rightarrow> rat" where
  \<comment> \<open>\<^verbatim>\<open>activityMultipliers[level] || 1.55\<close>\<close>
  "activityMultiplier lvl = (case activityMultipliers lvl of Some m \<Rightarrow> m | None \<Rightarrow> 155 / 100)"

definition generator_tdee :: "UserProfile \<Rightarrow> rat" where
  "generator_tdee profile =
     bmr_of (personalDetails profile) * activityMultiplier (activityLevel (personalDetails profile))"

definition generator_calories :: "UserProfile \<Rightarrow> rat" where
  \<comment> \<open>The local \<^verbatim>\<open>dailyCalories\<close> of \<^verbatim>\<open>calculateNutritionTargets\<close>, before rounding.\<close>
  "generator_calories profile =
     (let tdee = generator_tdee profile in
      case primary (healthGoals profile) of
        weight_loss \<Rightarrow> tdee - 500
      | muscle_gain \<Rightarrow> tdee + 300
      | maintenance \<Rightarrow> tdee
      | general_health \<Rightarrow> tdee)"

definition generator_ratios :: "DietType \<Rightarrow> rat \<times> rat \<times> rat" where
  \<comment> \<open>(proteinRatio, fatRatio, carbRatio) of the plan generator.\<close>
  "generator_ratios dt =
     (case dt of
        keto \<Rightarrow> (25 / 100, 70 / 100, 5 / 100)
      | paleo \<Rightarrow> (30 / 100, 35 / 100, 35 / 100)
      | vegan \<Rightarrow> (20 / 100, 25 / 100, 55 / 100)
      | vegetarian \<Rightarrow> (20 / 100, 25 / 100, 55 / 100)
      | omnivore \<Rightarrow> (25 / 100, 30 / 100, 45 / 100)
      | pescatarian \<Rightarrow> (25 / 100, 30 / 100, 45 / 100))"

definition calculateNutritionTargets :: "UserProfile \<Rightarrow> NutritionTargets" where
  "calculateNutritionTargets profile =
     (let dailyCal = generator_calories profile;
          (proteinRatio, fatRatio, carbRatio) =
            generator_ratios (dietType (dietaryRestrictions profile))
      in \<lparr> dailyCalories = Math_round dailyCal,
           target_protein = Math_round ((dailyCal * proteinRatio) / 4),
           target_carbs = Math_round ((dailyCal * carbRatio) / 4),
           target_fat = Math_round ((dailyCal * fatRatio) / 9) \<rparr>)"


section \<open>AIService: the template generator\<close>

record MealTemplate =
  t_name :: string
  t_prepTime :: rat
  t_cookTime :: rat

datatype MealType = Breakfast | Lunch | Dinner | Snack

definition tpl :: "string \<Rightarrow> rat \<Rightarrow> rat \<Rightarrow> MealTemplate" where
  "tpl n p c = \<lparr> t_name = n, t_prepTime = p, t_cookTime = c \<rparr>"

definition vegetarianTemplates :: "MealType \<Rightarrow> MealTemplate list" where
  "vegetarianTemplates mt =
     (case mt of
        Breakfast \<Rightarrow>
          [tpl ''Overnight Oats with Berries'' 5 0, tpl ''Avocado Toast'' 5 3,
           tpl ''Greek Yogurt Parfait'' 5 0, tpl ''Banana Pancakes'' 10 10,
           tpl ''Smoothie Bowl'' 7 0, tpl ''Chia Pudding'' 5 0,
           tpl ''Veggie Omelet'' 5 8, tpl ''Peanut Butter Toast'' 3 2,
           tpl ''Breakfast Burrito'' 10 8, tpl ''Fruit Salad Bowl'' 8 0]
      | Lunch \<Rightarrow>
          [tpl ''Quinoa Buddha Bowl'' 10 25, tpl ''Lentil Curry'' 15 30,
           tpl ''Caprese Sandwich'' 5 0, tpl ''Chickpea Salad'' 10 0,
           tpl ''Veggie Wrap'' 8 0, tpl ''Pasta Primavera'' 10 15,
           tpl ''Black Bean Bowl'' 8 10, tpl ''Falafel Plate'' 15 20,
           tpl ''Vegetable Soup'' 10 25, tpl ''Paneer Tikka Bowl'' 20 15]
      | Dinner \<Rightarrow>
          [tpl ''Stuffed Bell Peppers'' 20 35, tpl ''Tofu Stir-fry'' 15 15,
           tpl ''Eggplant Parmesan'' 20 30, tpl ''Mushroom Risotto'' 10 30,
           tpl ''Veggie Burger'' 15 12, tpl ''Spinach Lasagna'' 25 40,
           tpl ''Cauliflower Tacos'' 10 25, tpl ''Vegetable Biryani'' 20 30,
           tpl ''Zucchini Noodles'' 10 8, tpl ''Dal Tadka'' 10 25]
      | Snack \<Rightarrow>
          [tpl ''Greek Yogurt with Nuts'' 2 0, tpl ''Apple with Almond Butter'' 3 0,
           tpl ''Trail Mix'' 2 0, tpl ''Hummus with Veggies'' 3 0,
           tpl ''Protein Smoothie'' 5 0])"

definition omnivoreTemplates :: "MealType \<Rightarrow> MealTemplate list" where
  "omnivoreTemplates mt =
     (case mt of
        Breakfast \<Rightarrow> vegetarianTemplates Breakfast @
          [tpl ''Scrambled Eggs with Bacon'' 5 8, tpl ''Breakfast Sausage Bowl'' 5 12]
      | Lunch \<Rightarrow> vegetarianTemplates Lunch @
          [tpl ''Grilled Chicken Salad'' 10 15, tpl ''Turkey Sandwich'' 5 0,
           tpl ''Beef Burrito Bowl'' 10 15, tpl ''Tuna Salad'' 8 0]
      | Dinner \<Rightarrow> vegetarianTemplates Dinner @
          [tpl ''Baked Salmon'' 10 25, tpl ''Grilled Chicken Breast'' 15 20,
           tpl ''Beef Stir-fry'' 10 12, tpl ''Fish Tacos'' 10 10,
           tpl ''Pork Tenderloin'' 10 30, tpl ''Shrimp Pasta'' 10 15]
      | Snack \<Rightarrow> vegetarianTemplates Snack @
          [tpl ''Beef Jerky'' 1 0, tpl ''Hard Boiled Eggs'' 2 10])"

definition getMealTemplates :: "bool \<Rightarrow> MealType \<Rightarrow> MealTemplate list" where
  "getMealTemplates isVegetarian = (if isVegetarian then vegetarianTemplates else omnivoreTemplates)"

definition generateMeal :: "MealType \<Rightarrow> rat \<Rightarrow> bool \<Rightarrow> int \<Rightarrow> Meal" where
  \<comment> \<open>Every pool is non-empty and \<open>day\<close> is at least 1, so the index is in range.\<close>
  "generateMeal mealType targetCalories isVegetarian d =
     (let templates = getMealTemplates isVegetarian mealType;
          template = templates ! nat (d mod int (length templates))
      in \<lparr> meal_name = t_name template,
           nutrition =
             \<lparr> calories = Math_round targetCalories,
               protein = Math_round (targetCalories * (15 / 100) / 4),
               carbs = Math_round (targetCalories * (50 / 100) / 4),
               fat = Math_round (targetCalories * (35 / 100) / 9),
               fiber = Math_round (targetCalories * (2 / 100)),
               sugar = None, sodium = None, cholesterol = None,
               vitamins = None, minerals = None \<rparr>,
           prepTime = t_prepTime template,
           cookTime = t_cookTime template,
           servings = 1,
           completed = False \<rparr>)"

definition isVegetarian_of :: "UserProfile \<Rightarrow> bool" where
  "isVegetarian_of profile =
     (dietType (dietaryRestrictions profile) = vegetarian \<or>
      dietType (dietaryRestrictions profile) = vegan)"

definition fallbackDay :: "int \<Rightarrow> UserProfile \<Rightarrow> NutritionTargets \<Rightarrow> int \<Rightarrow> DayMeal" where
  \<comment> \<open>The body of the loop of \<^verbatim>\<open>generateFallbackMeals\<close>; \<open>today\<close> is the day number
      of \<^verbatim>\<open>new Date()\<close>.\<close>
  "fallbackDay today profile targets d =
     (let isVegetarian = isVegetarian_of profile in
      \<lparr> day = d,
        date = today + d - 1,
        breakfast = generateMeal Breakfast (dailyCalories targets * (25 / 100)) isVegetarian d,
        lunch = generateMeal Lunch (dailyCalories targets * (35 / 100)) isVegetarian d,
        dinner = generateMeal Dinner (dailyCalories targets * (30 / 100)) isVegetarian d,
        snacks = [generateMeal Snack (dailyCalories targets * (10 / 100)) isVegetarian d],
        totalCalories = dailyCalories targets,
        day_completed = False \<rparr>)"

definition generateFallbackMeals :: "int \<Rightarrow> UserProfile \<Rightarrow> NutritionTargets \<Rightarrow> DayMeal list" where
  \<comment> \<open>\<^verbatim>\<open>for (let day = 1; day <= profile.planDuration; day++)\<close>: the days 1 to the
      integer part of the duration, none when the duration is below 1.\<close>
  "generateFallbackMeals today profile targets =
     map (fallbackDay today profile targets) [1..\<lfloor>planDuration profile\<rfloor>]"

text \<open>
  The call of the text-generation service is an input of the model: the key is missing,
  the request fails, or a text comes back. The parser of the repository ignores the text.
\<close>

datatype AIOutcome = no_api_key | request_failed | response string

definition parseAIMealPlan :: "string \<Rightarrow> int \<Rightarrow> UserProfile \<Rightarrow> NutritionTargets \<Rightarrow> DayMeal list" where
  "parseAIMealPlan aiResponse today profile targets = generateFallbackMeals today profile targets"

definition generateMealPlanWithAI ::
    "AIOutcome \<Rightarrow> int \<Rightarrow> UserProfile \<Rightarrow> NutritionTargets \<Rightarrow> DayMeal list" where
  "generateMealPlanWithAI outcome today profile targets =
     (case outcome of
        no_api_key \<Rightarrow> generateFallbackMeals today profile targets
      | request_failed \<Rightarrow> generateFallbackMeals today profile targets
      | response aiResponse \<Rightarrow> parseAIMealPlan aiResponse today profile targets)"

definition plan_of :: "UserProfile \<Rightarrow> NutritionTargets \<Rightarrow> DayMeal list \<Rightarrow> DietPlan" where
  \<comment> \<open>The object literal that both \<^verbatim>\<open>generateDietPlan\<close> and
      \<^verbatim>\<open>generateFallbackDietPlan\<close> return (identifier, name, description and time
      stamps left out).\<close>
  "plan_of profile targets mealPlan =
     \<lparr> duration = planDuration profile,
       plan_dailyCalories = dailyCalories targets,
       macros = \<lparr> macros_protein = target_protein targets,
                  macros_carbs = target_carbs targets,
                  macros_fat = target_fat targets \<rparr>,
       meals = mealPlan,
       isActive = True,
       progress = \<lparr> completedDays = 0, totalDays = planDuration profile,
                    adherenceRate = Num 0 \<rparr> \<rparr>"

definition generateFallbackDietPlan :: "int \<Rightarrow> UserProfile \<Rightarrow> DietPlan" where
  "generateFallbackDietPlan today profile =
     (let targets = calculateNutritionTargets profile;
          mealList = generateFallbackMeals today profile targets
      in plan_of profile targets mealList)"

definition generateDietPlan :: "AIOutcome \<Rightarrow> int \<Rightarrow> UserProfile \<Rightarrow> DietPlan" where
  \<comment> \<open>Nothing in the \<^verbatim>\<open>try\<close> block throws on a profile of the declared type, so the
      \<^verbatim>\<open>catch\<close> branch (\<open>generateFallbackDietPlan\<close>) is not taken.\<close>
  "generateDietPlan outcome today userProfile =
     (let nutritionTargets = calculateNutritionTargets userProfile;
          mealPlan = generateMealPlanWithAI outcome today userProfile nutritionTargets
      in plan_of userProfile nutritionTargets mealPlan)"


section \<open>ProfileService: validation\<close>











section \<open>Dashboard: completing a meal\<close>




definition allMealsCompleted :: "DayMeal \<Rightarrow> bool" where
  "allMealsCompleted dm =
     (completed (breakfast dm) \<and> completed (lunch dm) \<and> completed (dinner dm) \<and>
      list_all completed (snacks dm))"



definition wf_plan :: "DietPlan \<Rightarrow> bool" where
  \<comment> \<open>The invariants of the data model: one day per day of the duration, on distinct
      dates, and a day flagged as completed has all its meals completed.\<close>
  "wf_plan plan =
     (duration plan = of_nat (length (meals plan)) \<and>
      totalDays (progress plan) = duration plan \<and>
      distinct (map date (meals plan)) \<and>
      list_all (\<lambda>d. day_completed d = allMealsCompleted d) (meals plan))"




section \<open>Sample values\<close>

text \<open>
  Builders for the concrete inputs of the examples below: nutrition data with the five
  required fields only, and a profile from its numbers, its enumerations and the value
  under the tracker's key \<^verbatim>\<open>primaryGoal\<close>.
\<close>

definition nd :: "rat \<Rightarrow> rat \<Rightarrow> rat \<Rightarrow> rat \<Rightarrow> rat \<Rightarrow> NutritionData" where
  "nd cal pro carb ft fib =
     \<lparr> calories = cal, protein = pro, carbs = carb, fat = ft, fiber = fib,
       sugar = None, sodium = None, cholesterol = None, vitamins = None, minerals = None \<rparr>"

definition mk_profile ::
    "rat \<Rightarrow> Gender \<Rightarrow> rat \<Rightarrow> rat \<Rightarrow> ActivityLevel \<Rightarrow> Goal \<Rightarrow> Goal option \<Rightarrow> DietType \<Rightarrow> rat
      \<Rightarrow> UserProfile" where
  "mk_profile a g w h lvl gl pg dt dur =
     \<lparr> name = ''Test User'', email = ''test@example.com'',
       personalDetails = \<lparr> age = a, gender = g, weight = w, height = h, activityLevel = lvl \<rparr>,
       healthGoals = \<lparr> primary = gl, primaryGoal = pg \<rparr>,
       dietaryRestrictions = \<lparr> dietType = dt \<rparr>,
       planDuration = dur \<rparr>"

text \<open>
  A meal of the given calories, a day with one snack from the four flags of its meals,
  and a plan from its days with the progress of a fresh plan.
\<close>

definition mk_meal :: "rat \<Rightarrow> bool \<Rightarrow> Meal" where
  "mk_meal cal done =
     \<lparr> meal_name = ''Meal'', nutrition = nd cal 0 0 0 0,
       prepTime = 5, cookTime = 10, servings = 1, completed = done \<rparr>"




section \<open>Properties\<close>

subsection \<open>Helper facts\<close>

lemma or0_Some [simp]: "or0 (Some x) = x"
  by (simp add: or0_def)

lemma opt_field_Some [simp]: "opt_field f (Some r) = or0 (f r)"
  by (simp add: opt_field_def)

lemma truthy0_id [simp]: "truthy0 x = x"
  by (simp add: truthy0_def)







lemma length_generateFallbackMeals:
  "length (generateFallbackMeals today p t) = nat \<lfloor>planDuration p\<rfloor>"
  by (simp add: generateFallbackMeals_def)

lemma meals_generateMealPlanWithAI:
  "generateMealPlanWithAI outcome today p t = generateFallbackMeals today p t"
  by (cases outcome) (simp_all add: generateMealPlanWithAI_def parseAIMealPlan_def)

lemma generateDietPlan_fallback:
  "generateDietPlan outcome today p = generateFallbackDietPlan today p"
  by (simp add: generateDietPlan_def generateFallbackDietPlan_def meals_generateMealPlanWithAI)

lemma fallbackDay_flags:
  "\<not> day_completed (fallbackDay today p t d) \<and>
   \<not> completed (breakfast (fallbackDay today p t d)) \<and>
   \<not> completed (lunch (fallbackDay today p t d)) \<and>
   \<not> completed (dinner (fallbackDay today p t d)) \<and>
   list_all (\<lambda>s. \<not> completed s) (snacks (fallbackDay today p t d))"
  by (simp add: fallbackDay_def generateMeal_def Let_def)


subsection \<open>Progress against a target of zero\<close>

text \<open>With a target other than 0 the percentage is the rounded quotient.\<close>

lemma percent_of_nonzero:
  "t \<noteq> 0 \<Longrightarrow> percent_of c t = Num (Math_round (c / t * 100))"
  by (simp add: percent_of_def js_div_def)

text \<open>
  Claim C1. The claim asks for a percentage of 0 when a target field is 0. The code
  divides without a guard: with a protein target of 0 the protein percentage is
  \<open>Infinity\<close> for a positive intake and \<open>NaN\<close> for an intake of 0.
\<close>

theorem progress_zero_target_not_zero:
  "pct_protein (percentage
     (calculateNutritionProgress (nd 2000 50 250 67 24) (nd 2000 0 250 67 25))) = PosInfinity \<and>
   pct_protein (percentage
     (calculateNutritionProgress (nd 2000 0 250 67 24) (nd 2000 0 250 67 25))) = NaN"
  by code_simp


subsection \<open>The nutrition score\<close>

text \<open>
  Claim C2. The claim bounds the score by 100 and caps the fiber score with
  \<open>min(100, pct * 1.25)\<close>. The code caps the fiber score only from 100 percent on, so a
  fiber percentage of 96 scores 120 and the total is 102.
\<close>

theorem score_exceeds_100:
  "percentage (calculateNutritionProgress (nd 2000 150 250 67 24) (nd 2000 150 250 67 25)) =
     \<lparr> pct_calories = Num 100, pct_protein = Num 100, pct_carbs = Num 100,
       pct_fat = Num 100, pct_fiber = Num 96 \<rparr> \<and>
   fiberScore (Num 96) = Num 120 \<and>
   calculateNutritionScore
     (calculateNutritionProgress (nd 2000 150 250 67 24) (nd 2000 150 250 67 25)) = Num 102"
  by code_simp


subsection \<open>Plan duration\<close>





subsection \<open>The total of a generated day\<close>

text \<open>
  Claim C4. The claim equates a day's \<open>totalCalories\<close> with the sum of its meals'
  calories, and that sum with the daily target. The generator stores the target and
  rounds the four shares one by one: for a target of 2759 the meals add up to 2760,
  which is also what \<open>recalculateDayMealTotals\<close> stores afterwards.
\<close>

theorem generated_day_total_drifts:
  "totalCalories (meals (generateDietPlan no_api_key 0
      (mk_profile 30 male 80 180 moderate maintenance None omnivore 7)) ! 0) = 2759 \<and>
   calories (calculateDayNutrition (meals (generateDietPlan no_api_key 0
      (mk_profile 30 male 80 180 moderate maintenance None omnivore 7)) ! 0)) = 2760 \<and>
   totalCalories (recalculateDayMealTotals (meals (generateDietPlan no_api_key 0
      (mk_profile 30 male 80 180 moderate maintenance None omnivore 7)) ! 0)) = 2760"
  by code_simp


subsection \<open>Goal adjustment\<close>





subsection \<open>Activity multipliers\<close>




subsection \<open>Energy of the macronutrient targets\<close>





subsection \<open>Completing a meal\<close>











text \<open>
  A plan generated for a whole number of days satisfies the invariants of the data
  model, so the hypothesis of the next theorem holds for every fresh plan.
\<close>

lemma generated_plan_wf:
  assumes "planDuration p = of_nat n"
  shows "wf_plan (generateDietPlan outcome today p)"
proof -
  have dates: "map date (generateFallbackMeals today p t) =
                 map (\<lambda>d. today + d - 1) [1..\<lfloor>planDuration p\<rfloor>]" for t
    by (simp add: generateFallbackMeals_def fallbackDay_def Let_def comp_def)
  have "inj_on (\<lambda>d::int. today + d - 1) A" for A
    by (simp add: inj_on_def)
  then have dist: "distinct (map date (generateFallbackMeals today p t))" for t
    unfolding dates by (simp add: distinct_map)
  have inv: "list_all (\<lambda>d. day_completed d = allMealsCompleted d)
               (generateFallbackMeals today p t)" for t
    using fallbackDay_flags
    by (auto simp: generateFallbackMeals_def list_all_iff allMealsCompleted_def)
  show ?thesis
    using assms dist inv
    by (simp add: wf_plan_def generateDietPlan_fallback generateFallbackDietPlan_def
          plan_of_def Let_def length_generateFallbackMeals)
qed





subsection \<open>The nutrition sum\<close>

lemma round_half_even_int: "round_half_even (of_int m) = m"
  by (simp add: round_half_even_def)

lemma binary_exponent_int:
  assumes "n \<noteq> 0"
  shows "binary_exponent (of_int n) = bitlen \<bar>n\<bar> - 1"
proof -
  have pos: "0 < \<bar>n\<bar>" using assms by simp
  from bitlen_bounds [OF pos] have lo: "2 ^ nat (bitlen \<bar>n\<bar> - 1) \<le> \<bar>n\<bar>"
    by simp
  have ge1: "1 \<le> bitlen \<bar>n\<bar>"
    using pos by (simp add: bitlen_alt_def)
  have "pow2 (bitlen \<bar>n\<bar> - 1) = of_int (2 ^ nat (bitlen \<bar>n\<bar> - 1))"
    using ge1 by (simp add: pow2_def)
  also have "\<dots> \<le> of_int \<bar>n\<bar>"
    using lo by (simp only: of_int_le_iff)
  finally have "pow2 (bitlen \<bar>n\<bar> - 1) \<le> \<bar>rat_of_int n\<bar>"
    by simp
  moreover have "bitlen 1 = 1"
    by (simp add: bitlen_alt_def)
  ultimately show ?thesis
    by (simp add: binary_exponent_def)
qed

lemma to_double_int:
  assumes "\<bar>n\<bar> < 2 ^ 53"
  shows "to_double (of_int n) = of_int n"
proof (cases "n = 0")
  case True
  then show ?thesis by (simp add: to_double_def)
next
  case False
  then have pos: "0 < \<bar>n\<bar>" by simp
  define k where "k = bitlen \<bar>n\<bar> - 1"
  have ge: "0 \<le> k"
    using pos by (simp add: k_def bitlen_alt_def)
  from bitlen_bounds [OF pos] have "(2::int) ^ nat k \<le> \<bar>n\<bar>"
    by (simp add: k_def)
  with assms have "(2::int) ^ nat k < 2 ^ 53"
    by linarith
  from power_less_imp_less_exp [OF _ this] have "nat k < 53"
    by simp
  then have le: "k \<le> 52"
    by linarith
  define j where "j = nat (52 - k)"
  have u: "pow2 (k - 52) = 1 / 2 ^ j"
    using le by (auto simp: pow2_def j_def)
  have "rat_of_int n / (1 / 2 ^ j) = of_int (n * 2 ^ j)"
    by simp
  then have r: "round_half_even (rat_of_int n / (1 / 2 ^ j)) = n * 2 ^ j"
    by (simp only: round_half_even_int)
  have "to_double (of_int n) = of_int (n * 2 ^ j) * (1 / 2 ^ j)"
    using False by (simp only: to_double_def binary_exponent_int [OF False] k_def [symmetric] u r Let_def)
      simp
  then show ?thesis
    by simp
qed

lemma js_plus_small:
  assumes "small_integer x" "small_integer y"
  shows "js_plus x y = x + y" "of_int \<lfloor>x + y\<rfloor> = x + y" "\<bar>x + y\<bar> < 2 ^ 52"
proof -
  obtain a b where x: "x = of_int a" and y: "y = of_int b"
    using assms by (metis small_integer_def)
  have "\<bar>rat_of_int a\<bar> < 2 ^ 51" "\<bar>rat_of_int b\<bar> < 2 ^ 51"
    using assms x y by (simp_all add: small_integer_def)
  then have "\<bar>rat_of_int a\<bar> < rat_of_int (2 ^ 51)" "\<bar>rat_of_int b\<bar> < rat_of_int (2 ^ 51)"
    by simp_all
  then have ab: "\<bar>a\<bar> < 2 ^ 51" "\<bar>b\<bar> < 2 ^ 51"
    by (simp_all only: of_int_abs [symmetric] of_int_less_iff)
  then have s: "\<bar>a + b\<bar> < 2 ^ 52"
    by simp
  then have "\<bar>a + b\<bar> < 2 ^ 53"
    by simp
  from to_double_int [OF this] show "js_plus x y = x + y"
    by (simp add: js_plus_def x y)
  show "of_int \<lfloor>x + y\<rfloor> = x + y"
    by (simp add: x y)
  have "\<bar>rat_of_int (a + b)\<bar> < rat_of_int (2 ^ 52)"
    using s by (simp only: of_int_abs [symmetric] of_int_less_iff)
  then show "\<bar>x + y\<bar> < 2 ^ 52"
    by (simp add: x y)
qed

lemma js_plus_assoc_small:
  assumes "small_integer x" "small_integer y" "small_integer z"
  shows "js_plus (js_plus x y) z = js_plus x (js_plus y z)"
proof -
  obtain a b c where x: "x = of_int a" and y: "y = of_int b" and z: "z = of_int c"
    using assms by (metis small_integer_def)
  have "\<bar>rat_of_int a\<bar> < rat_of_int (2 ^ 51)" "\<bar>rat_of_int b\<bar> < rat_of_int (2 ^ 51)"
       "\<bar>rat_of_int c\<bar> < rat_of_int (2 ^ 51)"
    using assms x y z by (simp_all add: small_integer_def)
  then have abc: "\<bar>a\<bar> < 2 ^ 51" "\<bar>b\<bar> < 2 ^ 51" "\<bar>c\<bar> < 2 ^ 51"
    by (simp_all only: of_int_abs [symmetric] of_int_less_iff)
  have 1: "\<bar>a + b\<bar> < 2 ^ 53" "\<bar>b + c\<bar> < 2 ^ 53" "\<bar>a + b + c\<bar> < 2 ^ 53" "\<bar>a + (b + c)\<bar> < 2 ^ 53"
    using abc by simp_all
  have "js_plus (js_plus x y) z = of_int (a + b + c)"
    using to_double_int [OF 1(1)] to_double_int [OF 1(3)]
    by (simp add: js_plus_def x y z)
  moreover have "js_plus x (js_plus y z) = of_int (a + (b + c))"
    using to_double_int [OF 1(2)] to_double_int [OF 1(4)]
    by (simp add: js_plus_def x y z)
  ultimately show ?thesis
    by simp
qed

lemma js_plus_commute: "js_plus a b = js_plus b a"
  by (simp add: js_plus_def add.commute)


text \<open>
  Claim C9, as stated, fails: the sum adds doubles, and the addition of doubles is not
  associative. With the calories 0.1, 0.2 and 0.3 (the nearest doubles) the sum from
  the left is 0.6000000000000001 and the sum from the right is 0.6.
\<close>

theorem addNutritionData_assoc_counterexample:
  "calories (addNutritionData (addNutritionData (nd (to_double (1 / 10)) 0 0 0 0)
      (nd (to_double (2 / 10)) 0 0 0 0)) (nd (to_double (3 / 10)) 0 0 0 0))
     = 1351079888211149 / 2251799813685248 \<and>
   calories (addNutritionData (nd (to_double (1 / 10)) 0 0 0 0)
      (addNutritionData (nd (to_double (2 / 10)) 0 0 0 0) (nd (to_double (3 / 10)) 0 0 0 0)))
     = 5404319552844595 / 9007199254740992 \<and>
   addNutritionData (addNutritionData (nd (to_double (1 / 10)) 0 0 0 0)
      (nd (to_double (2 / 10)) 0 0 0 0)) (nd (to_double (3 / 10)) 0 0 0 0)
   \<noteq> addNutritionData (nd (to_double (1 / 10)) 0 0 0 0)
      (addNutritionData (nd (to_double (2 / 10)) 0 0 0 0) (nd (to_double (3 / 10)) 0 0 0 0))"
  by code_simp

text \<open>
  Claim C9, amended. The nutrition sum is commutative for all nutrition data, absent
  optional fields counting as 0; it is associative for data whose numbers are integers
  below \<open>2^51\<close> in magnitude, where no addition rounds.
\<close>

theorem addNutritionData_comm_assoc_integers:
  "addNutritionData a b = addNutritionData b a \<and>
   (small_integers a \<and> small_integers b \<and> small_integers c \<longrightarrow>
      addNutritionData (addNutritionData a b) c = addNutritionData a (addNutritionData b c))"
proof -
  have comm: "addNutritionData a b = addNutritionData b a"
    by (simp add: addNutritionData_def js_plus_commute [of _ "calories b"]
          js_plus_commute [of _ "protein b"] js_plus_commute [of _ "carbs b"]
          js_plus_commute [of _ "fat b"] js_plus_commute [of _ "fiber b"]
          js_plus_commute [of _ "or0 (f b)" for f]
          js_plus_commute [of _ "opt_field f (g b)" for f g])
  have assoc: "addNutritionData (addNutritionData a b) c = addNutritionData a (addNutritionData b c)"
    if "small_integers a" "small_integers b" "small_integers c"
    using that
    by (simp add: addNutritionData_def small_integers_def field_values_def js_plus_assoc_small)
  from comm assoc show ?thesis by blast
qed

text \<open>
  The amended claim on a value with the required fields only, the nutrition of a meal
  and the empty value.
\<close>

theorem addNutritionData_comm_assoc_integers_witness:
  "small_integers (nd 690 26 86 27 14) \<and>
   small_integers (calculateMealNutrition (mk_meal 966 False)) \<and>
   small_integers createEmptyNutritionData \<and>
   addNutritionData (addNutritionData (nd 690 26 86 27 14)
       (calculateMealNutrition (mk_meal 966 False))) createEmptyNutritionData
     = addNutritionData (nd 690 26 86 27 14)
         (addNutritionData (calculateMealNutrition (mk_meal 966 False)) createEmptyNutritionData) \<and>
   calories (addNutritionData (addNutritionData (nd 690 26 86 27 14)
       (calculateMealNutrition (mk_meal 966 False))) createEmptyNutritionData) = 1656"
proof -
  have s: "small_integers (nd 690 26 86 27 14)"
    "small_integers (calculateMealNutrition (mk_meal 966 False))"
    "small_integers createEmptyNutritionData"
    by code_simp+
  have v: "calories (addNutritionData (addNutritionData (nd 690 26 86 27 14)
       (calculateMealNutrition (mk_meal 966 False))) createEmptyNutritionData) = 1656"
    by code_simp
  from addNutritionData_comm_assoc_integers [of "nd 690 26 86 27 14"
      "calculateMealNutrition (mk_meal 966 False)" createEmptyNutritionData] s v
  show ?thesis by blast
qed


subsection \<open>A fresh plan\<close>

text \<open>
  Claim C10. A plan returned by \<open>generateDietPlan\<close>, whatever the outcome of the call of
  the text-generation service, or by \<open>generateFallbackDietPlan\<close>, is active, has the
  progress 0 of \<open>planDuration\<close> days with adherence 0, and none of its days and none of
  their meals is completed.
\<close>

theorem fresh_plan_zero_progress:
  assumes "plan = generateDietPlan outcome today p \<or> plan = generateFallbackDietPlan today p"
  shows "isActive plan \<and>
         progress plan = \<lparr> completedDays = 0, totalDays = planDuration p, adherenceRate = Num 0 \<rparr> \<and>
         (\<forall>d \<in> set (meals plan).
            \<not> day_completed d \<and> \<not> completed (breakfast d) \<and> \<not> completed (lunch d) \<and>
            \<not> completed (dinner d) \<and> (\<forall>s \<in> set (snacks d). \<not> completed s))"
proof -
  have plan: "plan = generateFallbackDietPlan today p"
    using assms by (auto simp: generateDietPlan_fallback)
  have "\<forall>d \<in> set (meals plan).
            \<not> day_completed d \<and> \<not> completed (breakfast d) \<and> \<not> completed (lunch d) \<and>
            \<not> completed (dinner d) \<and> (\<forall>s \<in> set (snacks d). \<not> completed s)"
    using fallbackDay_flags
    by (auto simp: plan generateFallbackDietPlan_def plan_of_def generateFallbackMeals_def
          Let_def list_all_iff)
  then show ?thesis
    by (simp add: plan generateFallbackDietPlan_def plan_of_def Let_def)
qed

text \<open>The claim at a plan of 7 days generated after an answer of the service.\<close>

theorem fresh_plan_zero_progress_witness:
  "isActive (generateDietPlan (response ''text'') 0
      (mk_profile 30 male 80 180 moderate maintenance None omnivore 7)) \<and>
   length (meals (generateDietPlan (response ''text'') 0
      (mk_profile 30 male 80 180 moderate maintenance None omnivore 7))) = 7 \<and>
   \<not> day_completed (meals (generateDietPlan (response ''text'') 0
      (mk_profile 30 male 80 180 moderate maintenance None omnivore 7)) ! 6) \<and>
   \<not> completed (dinner (meals (generateDietPlan (response ''text'') 0
      (mk_profile 30 male 80 180 moderate maintenance None omnivore 7)) ! 6))"
proof -
  let ?plan = "generateDietPlan (response ''text'') 0
      (mk_profile 30 male 80 180 moderate maintenance None omnivore 7)"
  have len: "length (meals ?plan) = 7"
    by (simp add: generateDietPlan_fallback generateFallbackDietPlan_def plan_of_def Let_def
          length_generateFallbackMeals mk_profile_def)
  then have mem: "meals ?plan ! 6 \<in> set (meals ?plan)"
    by simp
  from fresh_plan_zero_progress [of ?plan "response ''text''" 0
      "mk_profile 30 male 80 180 moderate maintenance None omnivore 7"] mem len
  show ?thesis by blast
qed

end
